theory Spec2Isabelle
  imports Complex_Main "HOL-Library.Monad_Syntax"
begin

section \<open>The store: tables and constraints of the SQL schema\<close>

text \<open>
  The server actions of \<^verbatim>\<open>src/actions/actions.ts\<close> read and write a PostgreSQL
  database through Prisma. The tables are modelled as they are declared in the SQL
  set-up script: one record per row, with the columns that \<^verbatim>\<open>issueCredits\<close>,
  \<^verbatim>\<open>purchaseCredits\<close> and \<^verbatim>\<open>retireCredits\<close> read or write. Row identifiers are
  generated by the storage layer; only the identifier of a ledger row is ever returned
  to a caller, and it is modelled as a counter. Time stamps and the random
  \<^verbatim>\<open>blockHash\<close> are display columns without influence on any other column and are
  left out. Quantities are \<^verbatim>\<open>INTEGER\<close> columns (32 bit), prices are
  \<^verbatim>\<open>DOUBLE PRECISION\<close> columns, modelled as rationals.
\<close>

datatype CreditStatus = issued | traded | retired

datatype TransactionType = issuance | transfer | retirement | purchase

datatype TxStatus = confirmed | pending | failed

datatype AlertType = warning | critical | info

record CarbonProject =
  developerId :: string
  vintage :: int
  totalCredits :: int
  availableCredits :: int
  pricePerCredit :: rat

record CarbonCredit =
  cc_projectId :: string
  serialNumber :: string
  cc_vintage :: int
  cc_quantity :: int
  cc_status :: CreditStatus

record Transaction =
  tx_id :: nat
  tx_type :: TransactionType
  tx_projectId :: string
  fromUserId :: "string option"
  toUserId :: string
  tx_quantity :: int
  tx_pricePerCredit :: "rat option"
  totalValue :: "rat option"
  tx_status :: TxStatus

record BuyerHolding =
  buyerId :: string
  bh_projectId :: string
  bh_quantity :: int
  avgPrice :: rat

record ComplianceAlert =
  al_type :: AlertType
  entity :: string
  message :: string
  al_projectId :: "string option"
  resolved :: bool

text \<open>
  The database: the primary keys of \<^verbatim>\<open>users\<close>, the projects by primary key, and the
  other tables as lists of rows in insertion order.
\<close>

record database =
  user :: "string list"
  carbonProject :: "string \<rightharpoonup> CarbonProject"
  carbonCredit :: "CarbonCredit list"
  transaction :: "Transaction list"
  buyerHolding :: "BuyerHolding list"
  complianceAlert :: "ComplianceAlert list"
  nextId :: nat

text \<open>The range of an \<^verbatim>\<open>INTEGER\<close> column.\<close>

definition int4 :: "int \<Rightarrow> bool" where
  "int4 x = (- 2147483648 \<le> x \<and> x \<le> 2147483647)"

text \<open>
  A write that the database rejects raises an exception in the client: the result
  \<open>None\<close>. The checks are the constraints of the schema: foreign keys into
  \<^verbatim>\<open>users\<close> and \<^verbatim>\<open>carbon_projects\<close>, the unique index on
  \<^verbatim>\<open>carbon_credits.serialNumber\<close>, the unique index on
  \<^verbatim>\<open>buyer_holdings (buyerId, projectId)\<close>, and the range of integer columns.
\<close>

definition fk_user :: "database \<Rightarrow> string \<Rightarrow> bool" where
  "fk_user db u = (u \<in> set (user db))"

definition fk_user_opt :: "database \<Rightarrow> string option \<Rightarrow> bool" where
  "fk_user_opt db u = (case u of None \<Rightarrow> True | Some v \<Rightarrow> fk_user db v)"

definition fk_project :: "database \<Rightarrow> string \<Rightarrow> bool" where
  "fk_project db p = (carbonProject db p \<noteq> None)"

definition fk_project_opt :: "database \<Rightarrow> string option \<Rightarrow> bool" where
  "fk_project_opt db p = (case p of None \<Rightarrow> True | Some q \<Rightarrow> fk_project db q)"

definition carbonCredit_create :: "CarbonCredit \<Rightarrow> database \<Rightarrow> database option" where
  "carbonCredit_create c db =
     (if fk_project db (cc_projectId c)
         \<and> serialNumber c \<notin> set (map serialNumber (carbonCredit db))
         \<and> int4 (cc_vintage c) \<and> int4 (cc_quantity c)
      then Some (db\<lparr>carbonCredit := carbonCredit db @ [c]\<rparr>)
      else None)"

text \<open>
  \<^verbatim>\<open>transaction.create\<close>: the row gets a fresh identifier; the caller passes the
  other columns.
\<close>

definition transaction_create :: "Transaction \<Rightarrow> database \<Rightarrow> database option" where
  "transaction_create t db =
     (if fk_project db (tx_projectId t) \<and> fk_user_opt db (fromUserId t)
         \<and> fk_user db (toUserId t) \<and> int4 (tx_quantity t)
      then Some (db\<lparr>transaction := transaction db @ [t\<lparr>tx_id := nextId db\<rparr>],
                    nextId := Suc (nextId db)\<rparr>)
      else None)"

text \<open>
  \<^verbatim>\<open>carbonProject.update\<close> with \<^verbatim>\<open>availableCredits: { decrement: n }\<close>: the row
  must exist.
\<close>

definition carbonProject_decrement :: "string \<Rightarrow> int \<Rightarrow> database \<Rightarrow> database option" where
  "carbonProject_decrement projectId n db =
     (case carbonProject db projectId of
        None \<Rightarrow> None
      | Some p \<Rightarrow>
          if int4 n \<and> int4 (availableCredits p - n)
          then Some (db\<lparr>carbonProject := (carbonProject db)
                 (projectId \<mapsto> p\<lparr>availableCredits := availableCredits p - n\<rparr>)\<rparr>)
          else None)"

text \<open>
  The row of \<^verbatim>\<open>buyer_holdings\<close> with the unique key \<^verbatim>\<open>(buyerId, projectId)\<close>, its
  quantity changed by \<open>d\<close>; \<open>None\<close> when there is no such row.
\<close>

fun holding_add :: "string \<Rightarrow> string \<Rightarrow> int \<Rightarrow> BuyerHolding list \<Rightarrow> BuyerHolding list option" where
  "holding_add b p d [] = None"
| "holding_add b p d (h # hs) =
     (if buyerId h = b \<and> bh_projectId h = p
      then Some (h\<lparr>bh_quantity := bh_quantity h + d\<rparr> # hs)
      else map_option ((#) h) (holding_add b p d hs))"

fun holding_find :: "string \<Rightarrow> string \<Rightarrow> BuyerHolding list \<Rightarrow> BuyerHolding option" where
  "holding_find b p [] = None"
| "holding_find b p (h # hs) =
     (if buyerId h = b \<and> bh_projectId h = p then Some h else holding_find b p hs)"

text \<open>
  \<^verbatim>\<open>buyerHolding.upsert\<close> of \<^verbatim>\<open>purchaseCredits\<close>: \<^verbatim>\<open>create\<close> a row with the
  quantity and the price when the key is absent, otherwise
  \<^verbatim>\<open>update: { quantity: { increment: quantity } }\<close>, which writes no other column.
\<close>

definition buyerHolding_upsert :: "string \<Rightarrow> string \<Rightarrow> int \<Rightarrow> rat \<Rightarrow> database \<Rightarrow> database option" where
  "buyerHolding_upsert b p n price db =
     (case holding_find b p (buyerHolding db) of
        None \<Rightarrow>
          if fk_user db b \<and> fk_project db p \<and> int4 n
          then Some (db\<lparr>buyerHolding := buyerHolding db
                 @ [\<lparr>buyerId = b, bh_projectId = p, bh_quantity = n, avgPrice = price\<rparr>]\<rparr>)
          else None
      | Some h \<Rightarrow>
          if int4 n \<and> int4 (bh_quantity h + n)
          then map_option (\<lambda>hs. db\<lparr>buyerHolding := hs\<rparr>) (holding_add b p n (buyerHolding db))
          else None)"

text \<open>
  \<^verbatim>\<open>buyerHolding.update\<close> of \<^verbatim>\<open>retireCredits\<close> with
  \<^verbatim>\<open>quantity: { decrement: n }\<close>: an exception when the row does not exist.
\<close>

definition buyerHolding_decrement :: "string \<Rightarrow> string \<Rightarrow> int \<Rightarrow> database \<Rightarrow> database option" where
  "buyerHolding_decrement b p n db =
     (case holding_find b p (buyerHolding db) of
        None \<Rightarrow> None
      | Some h \<Rightarrow>
          if int4 n \<and> int4 (bh_quantity h - n)
          then map_option (\<lambda>hs. db\<lparr>buyerHolding := hs\<rparr>) (holding_add b p (- n) (buyerHolding db))
          else None)"

definition complianceAlert_create :: "ComplianceAlert \<Rightarrow> database \<Rightarrow> database option" where
  "complianceAlert_create a db =
     (if fk_project_opt db (al_projectId a)
      then Some (db\<lparr>complianceAlert := complianceAlert db @ [a]\<rparr>)
      else None)"

section \<open>Strings\<close>

text \<open>
  \<^verbatim>\<open>String(n)\<close> and template interpolation of an integer: its decimal digits.
  \<^verbatim>\<open>toUpperCase\<close> on the letters a to z; \<^verbatim>\<open>slice(0, 6)\<close> and \<^verbatim>\<open>slice(-4)\<close>.
  Identifiers are taken to be ASCII, as the generated and the seeded ones are: outside
  ASCII the JavaScript \<^verbatim>\<open>toUpperCase\<close> maps more letters and can change the length.
\<close>

definition digit :: "nat \<Rightarrow> char" where
  "digit d = char_of (48 + d)"

fun String_nat :: "nat \<Rightarrow> string" where
  "String_nat n = (if n < 10 then [digit n] else String_nat (n div 10) @ [digit (n mod 10)])"

definition String_int :: "int \<Rightarrow> string" where
  "String_int i = (if i < 0 then CHR ''-'' # String_nat (nat (- i)) else String_nat (nat i))"

definition toUpperCase_char :: "char \<Rightarrow> char" where
  "toUpperCase_char c =
     (let n = (of_char c :: nat) in if 97 \<le> n \<and> n \<le> 122 then char_of (n - 32) else c)"

definition toUpperCase :: "string \<Rightarrow> string" where
  "toUpperCase s = map toUpperCase_char s"

definition slice_last :: "nat \<Rightarrow> string \<Rightarrow> string" where
  "slice_last k s = drop (length s - k) s"

section \<open>issueCredits\<close>

text \<open>
  The serial of batch \<open>i\<close>, built from the project identifier, the vintage and the last
  four digits of \<^verbatim>\<open>Date.now() + i\<close>. The clock is read once in every iteration:
  \<open>now i\<close> is its value in iteration \<open>i\<close>.
\<close>

definition serial_of :: "string \<Rightarrow> int \<Rightarrow> nat \<Rightarrow> string" where
  "serial_of projectId vint t =
     ''BCX-'' @ take 6 (toUpperCase projectId) @ ''-'' @ String_int vint @ ''-''
       @ slice_last 4 (String_nat t)"

text \<open>
  The loop \<^verbatim>\<open>for (let i = 0; i < batchSize; i++)\<close> inside the database transaction,
  over the indices still to run. It threads the list \<^verbatim>\<open>serials\<close> and the database; an
  exception of a write ends it.
\<close>

fun issueLoop ::
  "string \<Rightarrow> CarbonProject \<Rightarrow> int \<Rightarrow> int \<Rightarrow> (nat \<Rightarrow> nat) \<Rightarrow> nat list
     \<Rightarrow> string list \<times> database \<Rightarrow> (string list \<times> database) option" where
  "issueLoop projectId project quantity batchSize now [] st = Some st"
| "issueLoop projectId project quantity batchSize now (i # is) (serials, db) =
     (let serial = serial_of projectId (vintage project) (now i + i) in
      case carbonCredit_create
             \<lparr>cc_projectId = projectId, serialNumber = serial, cc_vintage = vintage project,
              cc_quantity = quantity div batchSize, cc_status = issued\<rparr> db of
        None \<Rightarrow> None
      | Some db' \<Rightarrow> issueLoop projectId project quantity batchSize now is (serials @ [serial], db'))"

text \<open>
  The outcomes of \<^verbatim>\<open>issueCredits\<close>: \<^verbatim>\<open>{ success: true, serialNumbers }\<close>,
  \<^verbatim>\<open>{ success: false }\<close> for an unknown project, and a rejected promise when the
  database transaction fails (there is no \<^verbatim>\<open>try\<close> around it); the transaction is
  then rolled back.
\<close>

datatype issue_result = IssueSuccess "string list" | IssueFailure | IssueException

definition issueCredits ::
  "database \<Rightarrow> (nat \<Rightarrow> nat) \<Rightarrow> string \<Rightarrow> int \<Rightarrow> issue_result \<times> database" where
  "issueCredits db now projectId quantity =
     (case carbonProject db projectId of
        None \<Rightarrow> (IssueFailure, db)
      | Some project \<Rightarrow>
          (let batchSize = min quantity 5 in
           case do {
                  (serials, db1) \<leftarrow> issueLoop projectId project quantity batchSize now
                                       [0 ..< nat batchSize] ([], db);
                  db2 \<leftarrow> transaction_create
                           \<lparr>tx_id = 0, tx_type = issuance, tx_projectId = projectId,
                            fromUserId = None, toUserId = developerId project,
                            tx_quantity = quantity, tx_pricePerCredit = None,
                            totalValue = None, tx_status = confirmed\<rparr> db1;
                  Some (serials, db2)
                } of
             None \<Rightarrow> (IssueException, db)
           | Some (serials, db') \<Rightarrow> (IssueSuccess serials, db')))"

section \<open>purchaseCredits\<close>

text \<open>
  The error of a failed purchase: the two messages of the checks, and the message of an
  exception caught by the \<^verbatim>\<open>catch\<close>.
\<close>

datatype purchase_error = ProjectNotFound | NotEnoughCredits | PurchaseException

text \<open>
  The function has two parts, with an \<^verbatim>\<open>await\<close> between them. The first reads the
  project row and checks it; the second is the database transaction, which uses the row
  that was read for the price and the developer, and decrements the stored counter.
  The column \<^verbatim>\<open>totalValue\<close> is the exact product here and the product rounded to
  a double in the source.
\<close>

definition purchaseRead :: "database \<Rightarrow> string \<Rightarrow> int \<Rightarrow> purchase_error + CarbonProject" where
  "purchaseRead db projectId quantity =
     (case carbonProject db projectId of
        None \<Rightarrow> Inl ProjectNotFound
      | Some project \<Rightarrow>
          if availableCredits project < quantity then Inl NotEnoughCredits else Inr project)"

definition purchaseWrite ::
  "database \<Rightarrow> CarbonProject \<Rightarrow> string \<Rightarrow> int \<Rightarrow> string \<Rightarrow> (purchase_error + nat) \<times> database" where
  "purchaseWrite db project projectId quantity buyer =
     (case do {
             db1 \<leftarrow> transaction_create
                      \<lparr>tx_id = 0, tx_type = purchase, tx_projectId = projectId,
                       fromUserId = Some (developerId project), toUserId = buyer,
                       tx_quantity = quantity,
                       tx_pricePerCredit = Some (pricePerCredit project),
                       totalValue = Some (of_int quantity * pricePerCredit project),
                       tx_status = confirmed\<rparr> db;
             db2 \<leftarrow> carbonProject_decrement projectId quantity db1;
             buyerHolding_upsert buyer projectId quantity (pricePerCredit project) db2
           } of
        None \<Rightarrow> (Inl PurchaseException, db)
      | Some db' \<Rightarrow> (Inr (nextId db), db'))"

definition purchaseCredits ::
  "database \<Rightarrow> string \<Rightarrow> int \<Rightarrow> string \<Rightarrow> (purchase_error + nat) \<times> database" where
  "purchaseCredits db projectId quantity buyer =
     (case purchaseRead db projectId quantity of
        Inl e \<Rightarrow> (Inl e, db)
      | Inr project \<Rightarrow> purchaseWrite db project projectId quantity buyer)"

section \<open>retireCredits\<close>

text \<open>
  One database transaction of three writes; \<open>None\<close> is \<^verbatim>\<open>{ success: false }\<close>, the
  result of the \<^verbatim>\<open>catch\<close>, and \<open>Some\<close> carries the identifier of the ledger row.
\<close>

definition retireCredits ::
  "database \<Rightarrow> string \<Rightarrow> int \<Rightarrow> string \<Rightarrow> string \<Rightarrow> nat option \<times> database" where
  "retireCredits db projectId quantity buyer reason =
     (case do {
             db1 \<leftarrow> transaction_create
                      \<lparr>tx_id = 0, tx_type = retirement, tx_projectId = projectId,
                       fromUserId = None, toUserId = buyer, tx_quantity = quantity,
                       tx_pricePerCredit = None, totalValue = None,
                       tx_status = confirmed\<rparr> db;
             db2 \<leftarrow> buyerHolding_decrement buyer projectId quantity db1;
             complianceAlert_create
               \<lparr>al_type = info, entity = buyer,
                message = String_int quantity @ '' credits retired from project '' @ projectId
                            @ ''. Reason: '' @ reason,
                al_projectId = Some projectId, resolved = True\<rparr> db2
           } of
        None \<Rightarrow> (None, db)
      | Some db' \<Rightarrow> (Some (nextId db), db'))"

section \<open>Quantities derived from the tables\<close>

text \<open>
  The three terms of the conservation equation for a project: the quantities held by
  all buyers, the quantities of the retirement rows of the ledger, which is the only
  place where \<^verbatim>\<open>retireCredits\<close> records a retirement, and the stored counters of the
  project row.
\<close>

definition holdingsTotal :: "database \<Rightarrow> string \<Rightarrow> int" where
  "holdingsTotal db p =
     sum_list (map bh_quantity (filter (\<lambda>h. bh_projectId h = p) (buyerHolding db)))"

definition retiredTotal :: "database \<Rightarrow> string \<Rightarrow> int" where
  "retiredTotal db p =
     sum_list (map tx_quantity
       (filter (\<lambda>t. tx_type t = retirement \<and> tx_projectId t = p) (transaction db)))"

definition conservation :: "database \<Rightarrow> string \<Rightarrow> bool" where
  "conservation db p =
     (case carbonProject db p of
        None \<Rightarrow> True
      | Some project \<Rightarrow>
          totalCredits project
            = availableCredits project + holdingsTotal db p + retiredTotal db p)"

text \<open>The quantities of the batches that a call has added to \<^verbatim>\<open>carbon_credits\<close>.\<close>

definition issuedBy :: "database \<Rightarrow> database \<Rightarrow> int list" where
  "issuedBy db db' = map cc_quantity (drop (length (carbonCredit db)) (carbonCredit db'))"

section \<open>The integrity score\<close>

text \<open>
  \<^verbatim>\<open>src/lib/integrity-score.ts\<close>. A regular expression literal is kept as its
  syntax tree: a sequence of items and the flag \<^verbatim>\<open>i\<close>. Matching is the work of the
  JavaScript runtime and is a parameter \<open>test\<close> of the functions below, as is the
  generator \<^verbatim>\<open>Math.random\<close>: \<open>random k\<close> is the value of its \<open>k\<close>-th call.
  Numbers are doubles in the source and reals here.
\<close>

datatype item =
    Lit string            \<comment> \<open>literal characters\<close>
  | WordB                 \<comment> \<open>\<^verbatim>\<open>\b\<close>\<close>
  | Space                 \<comment> \<open>\<^verbatim>\<open>\s\<close>\<close>
  | OneOf string          \<comment> \<open>a character class \<^verbatim>\<open>[...]\<close>\<close>
  | Opt item              \<comment> \<open>\<^verbatim>\<open>x?\<close>\<close>
  | Alt string string     \<comment> \<open>\<^verbatim>\<open>(a|b)\<close>\<close>

record RegExp =
  source :: "item list"
  ignoreCase :: bool

definition rxi :: "item list \<Rightarrow> RegExp" where
  "rxi xs = \<lparr>source = xs, ignoreCase = True\<rparr>"

definition rx :: "item list \<Rightarrow> RegExp" where
  "rx xs = \<lparr>source = xs, ignoreCase = False\<rparr>"

record KeywordRule =
  patterns :: "RegExp list"
  weight :: real

definition ADDITIONALITY_RULES :: "KeywordRule list" where
  "ADDITIONALITY_RULES =
    [\<lparr>patterns = [rxi [WordB, Lit ''new'', WordB], rxi [WordB, Lit ''innovati''],
                  rxi [WordB, Lit ''first'', OneOf ''- '', Lit ''of'', OneOf ''- '', Lit ''its'',
                       OneOf ''- '', Lit ''kind'', WordB]],
      weight = 8\<rparr>,
     \<lparr>patterns = [rxi [WordB, Lit ''additionality'', WordB],
                  rxi [WordB, Lit ''beyond'', Opt (OneOf ''- ''), Lit ''bau'', WordB],
                  rxi [WordB, Lit ''business'', OneOf ''- '', Lit ''as'', OneOf ''- '',
                       Lit ''usual'', WordB]],
      weight = 10\<rparr>,
     \<lparr>patterns = [rxi [WordB, Lit ''novel'', WordB], rxi [WordB, Lit ''pioneering'', WordB],
                  rxi [WordB, Lit ''breakthrough'', WordB]],
      weight = 7\<rparr>,
     \<lparr>patterns = [rxi [WordB, Lit ''renewable'', WordB],
                  rxi [WordB, Lit ''clean'', Opt Space, Lit ''energy'', WordB]],
      weight = 5\<rparr>]"

definition PERMANENCE_RULES :: "KeywordRule list" where
  "PERMANENCE_RULES =
    [\<lparr>patterns = [rxi [WordB, Lit ''long'', OneOf ''- '', Lit ''term'', WordB],
                  rxi [WordB, Lit ''permanent'', WordB],
                  rxi [WordB, Lit ''100'', Opt Space, Lit ''year'', Opt (Lit ''s''), WordB],
                  rxi [WordB, Lit ''durable'', WordB]],
      weight = 9\<rparr>,
     \<lparr>patterns = [rxi [WordB, Lit ''permanence'', WordB], rxi [WordB, Lit ''irreversib'']],
      weight = 10\<rparr>,
     \<lparr>patterns = [rxi [WordB, Lit ''sequestration'', WordB], rxi [WordB, Lit ''storage'', WordB],
                  rxi [WordB, Lit ''geologic'']],
      weight = 6\<rparr>,
     \<lparr>patterns = [rxi [WordB, Lit ''afforestation'', WordB],
                  rxi [WordB, Lit ''reforestation'', WordB]],
      weight = 5\<rparr>]"

definition MRV_RULES :: "KeywordRule list" where
  "MRV_RULES =
    [\<lparr>patterns = [rxi [WordB, Lit ''audit''], rxi [WordB, Lit ''verification'', WordB],
                  rx [WordB, Lit ''ISO'', WordB], rxi [WordB, Lit ''monitoring'', WordB],
                  rx [WordB, Lit ''MRV'', WordB]],
      weight = 8\<rparr>,
     \<lparr>patterns = [rxi [WordB, Lit ''third'', OneOf ''- '', Lit ''party'', WordB],
                  rxi [WordB, Lit ''independent'', WordB]],
      weight = 7\<rparr>,
     \<lparr>patterns = [rxi [WordB, Lit ''satellite'', WordB],
                  rxi [WordB, Lit ''remote'', Opt Space, Lit ''sensing'', WordB],
                  rxi [WordB, Lit ''IoT'', WordB]],
      weight = 6\<rparr>,
     \<lparr>patterns = [rxi [WordB, Lit ''report''], rxi [WordB, Lit ''transparent''],
                  rxi [WordB, Lit ''accountab'']],
      weight = 5\<rparr>]"

definition LEAKAGE_RULES :: "KeywordRule list" where
  "LEAKAGE_RULES =
    [\<lparr>patterns = [rxi [WordB, Lit ''risk'', WordB],
                  rxi [WordB, Lit ''deforestation'', Opt Space, Lit ''shift'', WordB],
                  rxi [WordB, Lit ''leakage'', Opt Space, Lit ''control'', WordB]],
      weight = 9\<rparr>,
     \<lparr>patterns = [rxi [WordB, Lit ''leakage'', WordB], rxi [WordB, Lit ''displacement'', WordB]],
      weight = 8\<rparr>,
     \<lparr>patterns = [rxi [WordB, Lit ''buffer'', WordB], rxi [WordB, Lit ''safeguard''],
                  rxi [WordB, Lit ''mitigation'', WordB]],
      weight = 6\<rparr>,
     \<lparr>patterns = [rxi [WordB, Lit ''boundary'', WordB], rxi [WordB, Lit ''baseline'', WordB]],
      weight = 4\<rparr>]"

definition REGISTRY_QUALITY_RULES :: "KeywordRule list" where
  "REGISTRY_QUALITY_RULES =
    [\<lparr>patterns = [rxi [WordB, Lit ''Verra'', WordB],
                  rxi [WordB, Lit ''Gold'', Opt Space, Lit ''Standard'', WordB],
                  rxi [WordB, Lit ''registry'', WordB], rxi [WordB, Lit ''tracking'', WordB]],
      weight = 9\<rparr>,
     \<lparr>patterns = [rx [WordB, Lit ''ACR'', WordB], rx [WordB, Lit ''CAR'', WordB],
                  rxi [WordB, Lit ''Plan'', Opt Space, Lit ''Vivo'', WordB]],
      weight = 8\<rparr>,
     \<lparr>patterns = [rxi [WordB, Lit ''serial'', Opt Space, Lit ''number''],
                  rxi [WordB, Lit ''retire''], rxi [WordB, Lit ''cancel'']],
      weight = 5\<rparr>,
     \<lparr>patterns = [rxi [WordB, Lit ''certif''], rxi [WordB, Lit ''accredit'']],
      weight = 6\<rparr>]"

definition CORRESPONDING_ADJUSTMENT_RULES :: "KeywordRule list" where
  "CORRESPONDING_ADJUSTMENT_RULES =
    [\<lparr>patterns = [rxi [WordB, Lit ''Paris'', Opt Space, Lit ''Agreement'', WordB],
                  rxi [WordB, Lit ''double'', Opt Space, Lit ''counting'', WordB],
                  rxi [WordB, Lit ''corresponding'', Opt Space, Lit ''adjustment'', WordB]],
      weight = 10\<rparr>,
     \<lparr>patterns = [rxi [WordB, Lit ''Article'', Opt Space, Lit ''6'', WordB],
                  rx [WordB, Lit ''NDC'', WordB], rxi [WordB, Lit ''ITMO'', WordB]],
      weight = 9\<rparr>,
     \<lparr>patterns = [rxi [WordB, Lit ''host'', Opt Space, Lit ''country'', WordB],
                  rxi [WordB, Lit ''letter'', Opt Space, Lit ''of'', Opt Space,
                       Alt ''authorization'' ''approval'', WordB]],
      weight = 7\<rparr>,
     \<lparr>patterns = [rxi [WordB, Lit ''sovereign''], rxi [WordB, Lit ''jurisdiction'']],
      weight = 4\<rparr>]"

record 'a IntegrityParameters =
  additionality :: 'a
  permanence :: 'a
  mrv :: 'a
  leakage :: 'a
  registryQuality :: 'a
  correspondingAdjustment :: 'a

record IntegrityScoreResult =
  score :: int
  parameters :: "int IntegrityParameters"

definition PARAMETER_WEIGHTS :: "real IntegrityParameters" where
  "PARAMETER_WEIGHTS =
     \<lparr>additionality = 0.25, permanence = 0.20, mrv = 0.20, leakage = 0.15,
      registryQuality = 0.10, correspondingAdjustment = 0.10\<rparr>"

definition BASE_SCORE :: real where "BASE_SCORE = 45"
definition MIN_SCORE :: real where "MIN_SCORE = 30"
definition MAX_SCORE :: real where "MAX_SCORE = 95"
definition JITTER_RANGE :: real where "JITTER_RANGE = 10"
definition KEYWORD_SCALING :: real where "KEYWORD_SCALING = 1.20"

text \<open>The two nested loops of \<^verbatim>\<open>evaluateRules\<close>, threading \<^verbatim>\<open>keywordPoints\<close>.\<close>

definition evaluateRules :: "(RegExp \<Rightarrow> string \<Rightarrow> bool) \<Rightarrow> string \<Rightarrow> KeywordRule list \<Rightarrow> real" where
  "evaluateRules test text rules =
     (let keywordPoints =
            fold (\<lambda>rule. fold (\<lambda>pattern kp. if test pattern text then kp + weight rule else kp)
                               (patterns rule))
                 rules 0
      in BASE_SCORE + keywordPoints * KEYWORD_SCALING)"

definition applyJitter :: "real \<Rightarrow> real \<Rightarrow> real \<Rightarrow> real" where
  "applyJitter rnd val range' = (let half = range' / 2 in val + (rnd * range' - half))"

text \<open>\<^verbatim>\<open>Math.round\<close>: the nearest integer, a tie going up.\<close>

definition Math_round :: "real \<Rightarrow> int" where
  "Math_round x = \<lfloor>x + 1 / 2\<rfloor>"

definition clampAndRound :: "real \<Rightarrow> real \<Rightarrow> real \<Rightarrow> int" where
  "clampAndRound val mn mx = Math_round (min mx (max mn val))"

definition calculateIntegrityScoreFromDescription ::
  "(RegExp \<Rightarrow> string \<Rightarrow> bool) \<Rightarrow> (nat \<Rightarrow> real) \<Rightarrow> string \<Rightarrow> IntegrityScoreResult" where
  "calculateIntegrityScoreFromDescription test random description =
     (let text = description;
          rawAdditionality = evaluateRules test text ADDITIONALITY_RULES;
          rawPermanence = evaluateRules test text PERMANENCE_RULES;
          rawMrv = evaluateRules test text MRV_RULES;
          rawLeakage = evaluateRules test text LEAKAGE_RULES;
          rawRegistryQuality = evaluateRules test text REGISTRY_QUALITY_RULES;
          rawCA = evaluateRules test text CORRESPONDING_ADJUSTMENT_RULES;
          ps = \<lparr>additionality =
                   clampAndRound (applyJitter (random 0) rawAdditionality JITTER_RANGE)
                     MIN_SCORE MAX_SCORE,
                 permanence =
                   clampAndRound (applyJitter (random 1) rawPermanence JITTER_RANGE)
                     MIN_SCORE MAX_SCORE,
                 mrv =
                   clampAndRound (applyJitter (random 2) rawMrv JITTER_RANGE)
                     MIN_SCORE MAX_SCORE,
                 leakage =
                   clampAndRound (applyJitter (random 3) rawLeakage JITTER_RANGE)
                     MIN_SCORE MAX_SCORE,
                 registryQuality =
                   clampAndRound (applyJitter (random 4) rawRegistryQuality JITTER_RANGE)
                     MIN_SCORE MAX_SCORE,
                 correspondingAdjustment =
                   clampAndRound (applyJitter (random 5) rawCA JITTER_RANGE)
                     MIN_SCORE MAX_SCORE\<rparr>;
          weightedSum =
              of_int (additionality ps) * additionality PARAMETER_WEIGHTS
            + of_int (permanence ps) * permanence PARAMETER_WEIGHTS
            + of_int (mrv ps) * mrv PARAMETER_WEIGHTS
            + of_int (leakage ps) * leakage PARAMETER_WEIGHTS
            + of_int (registryQuality ps) * registryQuality PARAMETER_WEIGHTS
            + of_int (correspondingAdjustment ps) * correspondingAdjustment PARAMETER_WEIGHTS;
          adjustedScore = BASE_SCORE + (weightedSum powr 0.9) * 0.6
      in \<lparr>score = Math_round (min MAX_SCORE (max MIN_SCORE adjustedScore)),
          parameters = ps\<rparr>)"

section \<open>Example databases\<close>

text \<open>
  The project of the scenario: 10000 credits, all available, at price 100, with its
  developer and two buyers registered.
\<close>

definition scenario_project :: CarbonProject where
  "scenario_project =
     \<lparr>developerId = ''dev'', vintage = 2024, totalCredits = 10000,
      availableCredits = 10000, pricePerCredit = 100\<rparr>"

definition scenario_db :: database where
  "scenario_db =
     \<lparr>user = [''dev'', ''B1'', ''B2''],
      carbonProject = [''prj001'' \<mapsto> scenario_project],
      carbonCredit = [], transaction = [], buyerHolding = [], complianceAlert = [],
      nextId = 0\<rparr>"

text \<open>
  The scenario after buyer B1 has bought 4000 credits at 100 and the posted price has
  been changed to 200.
\<close>

definition bought_db :: database where
  "bought_db =
     \<lparr>user = [''dev'', ''B1'', ''B2''],
      carbonProject = [''prj001'' \<mapsto> scenario_project\<lparr>availableCredits := 6000,
                                                        pricePerCredit := 200\<rparr>],
      carbonCredit = [],
      transaction = [\<lparr>tx_id = 0, tx_type = purchase, tx_projectId = ''prj001'',
                      fromUserId = Some ''dev'', toUserId = ''B1'', tx_quantity = 4000,
                      tx_pricePerCredit = Some 100, totalValue = Some 400000,
                      tx_status = confirmed\<rparr>],
      buyerHolding = [\<lparr>buyerId = ''B1'', bh_projectId = ''prj001'', bh_quantity = 4000,
                       avgPrice = 100\<rparr>],
      complianceAlert = [],
      nextId = 1\<rparr>"

text \<open>A project with ten credits left, for two buyers who each ask for ten.\<close>

definition last_ten_project :: CarbonProject where
  "last_ten_project = scenario_project\<lparr>availableCredits := 10\<rparr>"

definition last_ten_db :: database where
  "last_ten_db = scenario_db\<lparr>carbonProject := [''prj001'' \<mapsto> last_ten_project]\<rparr>"

text \<open>The same project after B1 has bought the ten credits: none is left.\<close>

definition sold_out_db :: database where
  "sold_out_db =
     last_ten_db
       \<lparr>carbonProject := [''prj001'' \<mapsto> last_ten_project\<lparr>availableCredits := 0\<rparr>],
        transaction :=
          [\<lparr>tx_id = 0, tx_type = purchase, tx_projectId = ''prj001'',
             fromUserId = Some ''dev'', toUserId = ''B1'', tx_quantity = 10,
             tx_pricePerCredit = Some 100, totalValue = Some 1000,
             tx_status = confirmed\<rparr>],
        buyerHolding := [\<lparr>buyerId = ''B1'', bh_projectId = ''prj001'', bh_quantity = 10,
                          avgPrice = 100\<rparr>],
        nextId := 1\<rparr>"

text \<open>
  The scenario after B1 has bought 1000 more credits at the new price: 5000 credits are
  left and B1 holds 5000.
\<close>

definition held_db :: database where
  "held_db =
     bought_db
       \<lparr>carbonProject := [''prj001'' \<mapsto> scenario_project\<lparr>availableCredits := 5000,
                                                         pricePerCredit := 200\<rparr>],
        transaction := transaction bought_db
          @ [\<lparr>tx_id = 1, tx_type = purchase, tx_projectId = ''prj001'',
               fromUserId = Some ''dev'', toUserId = ''B1'', tx_quantity = 1000,
               tx_pricePerCredit = Some 200, totalValue = Some 200000,
               tx_status = confirmed\<rparr>],
        buyerHolding := [\<lparr>buyerId = ''B1'', bh_projectId = ''prj001'', bh_quantity = 5000,
                          avgPrice = 100\<rparr>],
        nextId := 2\<rparr>"

text \<open>A clock that shows the same millisecond in every iteration of one call.\<close>

definition steady_clock :: "nat \<Rightarrow> nat \<Rightarrow> nat" where
  "steady_clock t i = t"

section \<open>What each write changes\<close>

lemmas store_defs = transaction_create_def carbonCredit_create_def carbonProject_decrement_def
  buyerHolding_upsert_def buyerHolding_decrement_def complianceAlert_create_def
  fk_user_def fk_user_opt_def fk_project_def fk_project_opt_def int4_def

lemmas string_defs = serial_of_def toUpperCase_def toUpperCase_char_def String_int_def
  slice_last_def digit_def char_of_def bit_0 Let_def steady_clock_def

lemmas example_defs = scenario_db_def scenario_project_def bought_db_def held_db_def
  last_ten_db_def last_ten_project_def sold_out_db_def

lemma transaction_create_frame:
  assumes "transaction_create t db = Some db'"
  shows "carbonProject db' = carbonProject db" and "buyerHolding db' = buyerHolding db"
    and "carbonCredit db' = carbonCredit db" and "user db' = user db"
    and "complianceAlert db' = complianceAlert db"
    and "transaction db' = transaction db @ [t\<lparr>tx_id := nextId db\<rparr>]"
  using assms by (auto simp: transaction_create_def split: if_splits)

lemma carbonCredit_create_frame:
  assumes "carbonCredit_create c db = Some db'"
  shows "carbonProject db' = carbonProject db" and "buyerHolding db' = buyerHolding db"
    and "transaction db' = transaction db" and "user db' = user db"
    and "complianceAlert db' = complianceAlert db" and "nextId db' = nextId db"
    and "carbonCredit db' = carbonCredit db @ [c]"
    and "serialNumber c \<notin> set (map serialNumber (carbonCredit db))"
  using assms by (auto simp: carbonCredit_create_def split: if_splits)

lemma complianceAlert_create_frame:
  assumes "complianceAlert_create a db = Some db'"
  shows "carbonProject db' = carbonProject db" and "buyerHolding db' = buyerHolding db"
    and "transaction db' = transaction db" and "user db' = user db"
    and "carbonCredit db' = carbonCredit db"
  using assms by (auto simp: complianceAlert_create_def split: if_splits)

lemma carbonProject_decrement_frame:
  assumes "carbonProject_decrement pid n db = Some db'"
  shows "buyerHolding db' = buyerHolding db" and "transaction db' = transaction db"
    and "user db' = user db" and "carbonCredit db' = carbonCredit db"
    and "\<exists>p. carbonProject db pid = Some p
           \<and> carbonProject db'
               = (carbonProject db)(pid \<mapsto> p\<lparr>availableCredits := availableCredits p - n\<rparr>)"
  using assms by (auto simp: carbonProject_decrement_def split: option.splits if_splits)

lemma holding_add_total:
  "holding_add b p d hs = Some hs' \<Longrightarrow>
   sum_list (map bh_quantity (filter (\<lambda>h. bh_projectId h = q) hs')) =
   sum_list (map bh_quantity (filter (\<lambda>h. bh_projectId h = q) hs)) + (if q = p then d else 0)"
  by (induction hs arbitrary: hs') (auto split: if_splits)

lemma holding_find_None_add: "holding_find b p hs = None \<Longrightarrow> holding_add b p d hs = None"
  by (induction hs) (auto split: if_splits)

lemma buyerHolding_upsert_frame:
  assumes "buyerHolding_upsert b p n price db = Some db'"
  shows "carbonProject db' = carbonProject db" and "transaction db' = transaction db"
    and "user db' = user db" and "carbonCredit db' = carbonCredit db"
    and "holdingsTotal db' q = holdingsTotal db q + (if q = p then n else 0)"
  using assms
  by (auto simp: buyerHolding_upsert_def holdingsTotal_def holding_add_total
           split: option.splits if_splits)

lemma buyerHolding_decrement_frame:
  assumes "buyerHolding_decrement b p n db = Some db'"
  shows "carbonProject db' = carbonProject db" and "transaction db' = transaction db"
    and "user db' = user db" and "carbonCredit db' = carbonCredit db"
    and "holdingsTotal db' q = holdingsTotal db q - (if q = p then n else 0)"
  using assms
  by (auto simp: buyerHolding_decrement_def holdingsTotal_def holding_add_total
           split: option.splits if_splits)

text \<open>
  The loop of \<^verbatim>\<open>issueCredits\<close> appends one batch per index, each of the same
  quantity, and writes no other table.
\<close>

lemma issueLoop_frame:
  "issueLoop pid pr q bs now is (serials, db) = Some (serials', db') \<Longrightarrow>
   carbonProject db' = carbonProject db \<and> buyerHolding db' = buyerHolding db
   \<and> transaction db' = transaction db \<and> user db' = user db \<and> nextId db' = nextId db"
proof (induction "is" arbitrary: serials db)
  case Nil
  then show ?case by simp
next
  case (Cons i "is")
  then show ?case
    by (fastforce simp: Let_def split: option.splits dest: carbonCredit_create_frame)
qed

lemma issueLoop_quantities:
  "issueLoop pid pr q bs now is (serials, db) = Some (serials', db') \<Longrightarrow>
   map cc_quantity (carbonCredit db')
     = map cc_quantity (carbonCredit db) @ replicate (length is) (q div bs)
   \<and> length serials' = length serials + length is"
proof (induction "is" arbitrary: serials db)
  case Nil
  then show ?case by simp
next
  case (Cons i "is")
  from Cons.prems obtain db1 where
    c: "carbonCredit_create
          \<lparr>cc_projectId = pid, serialNumber = serial_of pid (vintage pr) (now i + i),
           cc_vintage = vintage pr, cc_quantity = q div bs, cc_status = issued\<rparr> db = Some db1"
    and r: "issueLoop pid pr q bs now is
              (serials @ [serial_of pid (vintage pr) (now i + i)], db1) = Some (serials', db')"
    by (auto simp: Let_def split: option.splits)
  show ?case
    using Cons.IH[OF r] carbonCredit_create_frame(7)[OF c]
    by (simp add: replicate_app_Cons_same)
qed

lemma issueLoop_distinct:
  "issueLoop pid pr q bs now is (serials, db) = Some (serials', db') \<Longrightarrow>
   distinct (map serialNumber (carbonCredit db)) \<Longrightarrow>
   distinct (map serialNumber (carbonCredit db'))"
proof (induction "is" arbitrary: serials db)
  case Nil
  then show ?case by simp
next
  case (Cons i "is")
  from Cons.prems(1) obtain db1 where
    c: "carbonCredit_create
          \<lparr>cc_projectId = pid, serialNumber = serial_of pid (vintage pr) (now i + i),
           cc_vintage = vintage pr, cc_quantity = q div bs, cc_status = issued\<rparr> db = Some db1"
    and r: "issueLoop pid pr q bs now is
              (serials @ [serial_of pid (vintage pr) (now i + i)], db1) = Some (serials', db')"
    by (auto simp: Let_def split: option.splits)
  have "distinct (map serialNumber (carbonCredit db1))"
    using carbonCredit_create_frame(7,8)[OF c] Cons.prems(2) by simp
  then show ?case using Cons.IH[OF r] by simp
qed

text \<open>
  A call of \<^verbatim>\<open>issueCredits\<close> that changes the database has run its loop and written
  its ledger row.
\<close>

lemma issueCredits_changed:
  assumes "issueCredits db now pid q = (r, db')" and "db' \<noteq> db"
  obtains pr serials db1 where "carbonProject db pid = Some pr"
    and "issueLoop pid pr q (min q 5) now [0 ..< nat (min q 5)] ([], db) = Some (serials, db1)"
    and "transaction_create
           \<lparr>tx_id = 0, tx_type = issuance, tx_projectId = pid, fromUserId = None,
            toUserId = developerId pr, tx_quantity = q, tx_pricePerCredit = None,
            totalValue = None, tx_status = confirmed\<rparr> db1 = Some db'"
    and "r = IssueSuccess serials"
  using assms
  by (auto simp: issueCredits_def Let_def split: option.splits Option.bind_splits)

section \<open>Conservation\<close>

lemma conservation_cong:
  "carbonProject db' p = carbonProject db p \<Longrightarrow> holdingsTotal db' p = holdingsTotal db p \<Longrightarrow>
   retiredTotal db' p = retiredTotal db p \<Longrightarrow> conservation db' p = conservation db p"
  by (simp add: conservation_def split: option.splits)

lemma issueCredits_conservation:
  assumes inv: "conservation db p"
  shows "conservation (snd (issueCredits db now pid q)) p"
proof (cases "issueCredits db now pid q")
  case (Pair r db')
  show ?thesis
  proof (cases "db' = db")
    case True
    then show ?thesis using Pair inv by simp
  next
    case False
    obtain pr serials db1 where
      l: "issueLoop pid pr q (min q 5) now [0 ..< nat (min q 5)] ([], db) = Some (serials, db1)"
      and t: "transaction_create
                \<lparr>tx_id = 0, tx_type = issuance, tx_projectId = pid, fromUserId = None,
                 toUserId = developerId pr, tx_quantity = q, tx_pricePerCredit = None,
                 totalValue = None, tx_status = confirmed\<rparr> db1 = Some db'"
      by (rule issueCredits_changed[OF Pair False]) (rule that)
    have "carbonProject db' = carbonProject db" "buyerHolding db' = buyerHolding db"
      using issueLoop_frame[OF l] transaction_create_frame[OF t] by simp_all
    moreover have "retiredTotal db' p = retiredTotal db p"
      using issueLoop_frame[OF l] transaction_create_frame(6)[OF t]
      by (simp add: retiredTotal_def)
    ultimately have "conservation db' p = conservation db p"
      by (intro conservation_cong) (simp_all add: holdingsTotal_def)
    then show ?thesis using Pair inv by simp
  qed
qed

lemma purchaseWrite_conservation:
  assumes inv: "conservation db p"
  shows "conservation (snd (purchaseWrite db pr pid q b)) p"
proof (cases "purchaseWrite db pr pid q b")
  case (Pair r db')
  show ?thesis
  proof (cases "db' = db")
    case True
    then show ?thesis using Pair inv by simp
  next
    case False
    then obtain db1 db2 where
      t: "transaction_create
            \<lparr>tx_id = 0, tx_type = purchase, tx_projectId = pid,
             fromUserId = Some (developerId pr), toUserId = b, tx_quantity = q,
             tx_pricePerCredit = Some (pricePerCredit pr),
             totalValue = Some (of_int q * pricePerCredit pr), tx_status = confirmed\<rparr> db
          = Some db1"
      and d: "carbonProject_decrement pid q db1 = Some db2"
      and u: "buyerHolding_upsert b pid q (pricePerCredit pr) db2 = Some db'"
      using Pair by (auto simp: purchaseWrite_def split: option.splits Option.bind_splits)
    obtain row where row: "carbonProject db1 pid = Some row"
      "carbonProject db2
         = (carbonProject db1)(pid \<mapsto> row\<lparr>availableCredits := availableCredits row - q\<rparr>)"
      using carbonProject_decrement_frame(5)[OF d] by blast
    have ret: "retiredTotal db' p = retiredTotal db p"
      using transaction_create_frame(6)[OF t] carbonProject_decrement_frame(2)[OF d]
        buyerHolding_upsert_frame(2)[OF u]
      by (simp add: retiredTotal_def)
    have hold: "holdingsTotal db' p = holdingsTotal db p + (if p = pid then q else 0)"
      using buyerHolding_upsert_frame(5)[OF u, of p] carbonProject_decrement_frame(1)[OF d]
        transaction_create_frame(2)[OF t]
      by (simp add: holdingsTotal_def)
    have proj: "carbonProject db'
                  = (carbonProject db)(pid \<mapsto> row\<lparr>availableCredits := availableCredits row - q\<rparr>)"
      "carbonProject db pid = Some row"
      using buyerHolding_upsert_frame(1)[OF u] row transaction_create_frame(1)[OF t]
      by simp_all
    have "conservation db' p"
      using inv ret hold proj by (auto simp: conservation_def split: option.splits)
    then show ?thesis using Pair by simp
  qed
qed

lemma purchaseCredits_conservation:
  "conservation db p \<Longrightarrow> conservation (snd (purchaseCredits db pid q b)) p"
  by (auto simp: purchaseCredits_def purchaseWrite_conservation split: sum.splits)

text \<open>A call of \<^verbatim>\<open>retireCredits\<close> that succeeds has made its three writes.\<close>

lemma retireCredits_Some:
  assumes "retireCredits db pid q b reason = (Some tid, db')"
  obtains db1 db2 where
    "transaction_create
       \<lparr>tx_id = 0, tx_type = retirement, tx_projectId = pid, fromUserId = None,
        toUserId = b, tx_quantity = q, tx_pricePerCredit = None, totalValue = None,
        tx_status = confirmed\<rparr> db = Some db1"
    and "buyerHolding_decrement b pid q db1 = Some db2"
    and "complianceAlert_create
           \<lparr>al_type = info, entity = b,
            message = String_int q @ '' credits retired from project '' @ pid
                        @ ''. Reason: '' @ reason,
            al_projectId = Some pid, resolved = True\<rparr> db2 = Some db'"
  using assms by (auto simp: retireCredits_def split: option.splits Option.bind_splits)

lemma retireCredits_None: "retireCredits db pid q b reason = (None, db') \<Longrightarrow> db' = db"
  by (auto simp: retireCredits_def split: option.splits)

lemma retireCredits_conservation:
  assumes inv: "conservation db p"
  shows "conservation (snd (retireCredits db pid q b reason)) p"
proof (cases "retireCredits db pid q b reason")
  case (Pair r db')
  show ?thesis
  proof (cases r)
    case None
    then show ?thesis using Pair inv retireCredits_None[of db pid q b reason db'] by simp
  next
    case (Some tid)
    have s: "retireCredits db pid q b reason = (Some tid, db')"
      using Pair Some by simp
    obtain db1 db2 where
      t: "transaction_create
            \<lparr>tx_id = 0, tx_type = retirement, tx_projectId = pid, fromUserId = None,
             toUserId = b, tx_quantity = q, tx_pricePerCredit = None, totalValue = None,
             tx_status = confirmed\<rparr> db = Some db1"
      and d: "buyerHolding_decrement b pid q db1 = Some db2"
      and a: "complianceAlert_create
                \<lparr>al_type = info, entity = b,
                 message = String_int q @ '' credits retired from project '' @ pid
                             @ ''. Reason: '' @ reason,
                 al_projectId = Some pid, resolved = True\<rparr> db2 = Some db'"
      by (rule retireCredits_Some[OF s]) (rule that)
    have ret: "retiredTotal db' p = retiredTotal db p + (if p = pid then q else 0)"
      using transaction_create_frame(6)[OF t] buyerHolding_decrement_frame(2)[OF d]
        complianceAlert_create_frame(3)[OF a]
      by (simp add: retiredTotal_def)
    have hold: "holdingsTotal db' p = holdingsTotal db p - (if p = pid then q else 0)"
      using buyerHolding_decrement_frame(5)[OF d, of p] complianceAlert_create_frame(2)[OF a]
        transaction_create_frame(2)[OF t]
      by (simp add: holdingsTotal_def)
    have proj: "carbonProject db' = carbonProject db"
      using buyerHolding_decrement_frame(1)[OF d] complianceAlert_create_frame(1)[OF a]
        transaction_create_frame(1)[OF t] by simp
    have "conservation db' p"
      using inv ret hold proj by (auto simp: conservation_def split: option.splits)
    then show ?thesis using Pair by simp
  qed
qed

text \<open>
  C1. For every project, the conservation equation of the project (total credits =
  available credits + the holdings of all buyers + the retired quantities recorded in
  the ledger) still holds after an issue, a purchase or a retirement, whatever the
  outcome of the call; a successful retirement of \<open>q\<close> adds \<open>q\<close> to the retired total
  and takes \<open>q\<close> from the holding. The transaction of a purchase keeps the equation
  also when the project row it was given is not the current one.
\<close>

theorem conservation_preserved:
  "conservation db p \<Longrightarrow>
     conservation (snd (issueCredits db now projectId quantity)) p
   \<and> conservation (snd (purchaseCredits db projectId quantity buyer)) p
   \<and> conservation (snd (purchaseWrite db project projectId quantity buyer)) p
   \<and> conservation (snd (retireCredits db projectId quantity buyer reason)) p
   \<and> (\<forall>tid db'. retireCredits db projectId quantity buyer reason = (Some tid, db')
        \<longrightarrow> retiredTotal db' projectId = retiredTotal db projectId + quantity
          \<and> holdingsTotal db' projectId = holdingsTotal db projectId - quantity)"
proof -
  assume inv: "conservation db p"
  have "retiredTotal db' projectId = retiredTotal db projectId + quantity
        \<and> holdingsTotal db' projectId = holdingsTotal db projectId - quantity"
    if s: "retireCredits db projectId quantity buyer reason = (Some tid, db')" for tid db'
  proof -
    obtain db1 db2 where
      t: "transaction_create
            \<lparr>tx_id = 0, tx_type = retirement, tx_projectId = projectId, fromUserId = None,
             toUserId = buyer, tx_quantity = quantity, tx_pricePerCredit = None,
             totalValue = None, tx_status = confirmed\<rparr> db = Some db1"
      and d: "buyerHolding_decrement buyer projectId quantity db1 = Some db2"
      and a: "complianceAlert_create
                \<lparr>al_type = info, entity = buyer,
                 message = String_int quantity @ '' credits retired from project ''
                             @ projectId @ ''. Reason: '' @ reason,
                 al_projectId = Some projectId, resolved = True\<rparr> db2 = Some db'"
      by (rule retireCredits_Some[OF s]) (rule that)
    have "retiredTotal db' projectId = retiredTotal db projectId + quantity"
      using transaction_create_frame(6)[OF t] buyerHolding_decrement_frame(2)[OF d]
        complianceAlert_create_frame(3)[OF a]
      by (simp add: retiredTotal_def)
    moreover have "holdingsTotal db' projectId = holdingsTotal db projectId - quantity"
      using buyerHolding_decrement_frame(5)[OF d, of projectId]
        complianceAlert_create_frame(2)[OF a] transaction_create_frame(2)[OF t]
      by (simp add: holdingsTotal_def)
    ultimately show ?thesis by simp
  qed
  then show ?thesis
    using inv
    by (simp add: issueCredits_conservation purchaseCredits_conservation
          purchaseWrite_conservation retireCredits_conservation)
qed

theorem conservation_preserved_witness:
  "conservation held_db ''prj001''
   \<and> conservation (snd (issueCredits held_db (steady_clock 1730000000123) ''prj001'' 2000)) ''prj001''
   \<and> conservation (snd (purchaseCredits held_db ''prj001'' 2000 ''B1'')) ''prj001''
   \<and> conservation (snd (purchaseWrite held_db scenario_project ''prj001'' 2000 ''B1'')) ''prj001''
   \<and> conservation (snd (retireCredits held_db ''prj001'' 2000 ''B1'' ''offset'')) ''prj001''
   \<and> fst (retireCredits held_db ''prj001'' 2000 ''B1'' ''offset'') = Some 2
   \<and> retiredTotal (snd (retireCredits held_db ''prj001'' 2000 ''B1'' ''offset'')) ''prj001'' = 2000
   \<and> holdingsTotal (snd (retireCredits held_db ''prj001'' 2000 ''B1'' ''offset'')) ''prj001'' = 3000"
proof -
  have h: "conservation held_db ''prj001''"
    by (simp add: conservation_def holdingsTotal_def retiredTotal_def example_defs)
  have r: "fst (retireCredits held_db ''prj001'' 2000 ''B1'' ''offset'') = Some 2"
    by (simp add: retireCredits_def store_defs example_defs)
  have t0: "retiredTotal held_db ''prj001'' = 0" "holdingsTotal held_db ''prj001'' = 5000"
    by (simp_all add: holdingsTotal_def retiredTotal_def example_defs)
  from conservation_preserved[OF h, where now = "steady_clock 1730000000123"
      and projectId = "''prj001''" and quantity = 2000 and buyer = "''B1''"
      and reason = "''offset''" and project = scenario_project]
  show ?thesis using h r t0 by (auto simp: prod_eq_iff)
qed

section \<open>Failed purchases\<close>

text \<open>
  The check of \<^verbatim>\<open>purchaseCredits\<close> is made on the project row that the call
  reads. When that row is missing the call fails with the error of a missing project,
  and when it has fewer available credits than are asked for the call fails with the
  error of insufficient supply; in both cases nothing is written.
\<close>

lemma purchase_failure_unchanged:
  "(carbonProject db projectId = None
      \<longrightarrow> purchaseCredits db projectId quantity buyer = (Inl ProjectNotFound, db))
   \<and> (\<forall>project. carbonProject db projectId = Some project
          \<and> availableCredits project < quantity
      \<longrightarrow> purchaseCredits db projectId quantity buyer = (Inl NotEnoughCredits, db))"
  by (simp add: purchaseCredits_def purchaseRead_def)

lemma purchase_failure_unchanged_example:
  "carbonProject held_db ''prj009'' = None
   \<and> purchaseCredits held_db ''prj009'' 5001 ''B2'' = (Inl ProjectNotFound, held_db)
   \<and> carbonProject held_db ''prj001''
       = Some (scenario_project\<lparr>availableCredits := 5000, pricePerCredit := 200\<rparr>)
   \<and> availableCredits (scenario_project\<lparr>availableCredits := 5000, pricePerCredit := 200\<rparr>)
       < 5001
   \<and> purchaseCredits held_db ''prj001'' 5001 ''B2'' = (Inl NotEnoughCredits, held_db)"
proof -
  have a: "carbonProject held_db ''prj009'' = None"
    by (simp add: example_defs)
  have b: "carbonProject held_db ''prj001''
             = Some (scenario_project\<lparr>availableCredits := 5000, pricePerCredit := 200\<rparr>)"
    by (simp add: example_defs)
  have c: "availableCredits (scenario_project\<lparr>availableCredits := 5000, pricePerCredit := 200\<rparr>)
             < 5001"
    by simp
  show ?thesis
    using a b c purchase_failure_unchanged[of held_db "''prj009''" 5001 "''B2''"]
      purchase_failure_unchanged[of held_db "''prj001''" 5001 "''B2''"]
    by simp
qed

section \<open>Retirement and the inventory\<close>

text \<open>
  C9. A successful retirement leaves the table of projects as it was: total credits,
  available credits and price of every project are unchanged, so retired credits do not
  return to the available credits.
\<close>

theorem retire_leaves_inventory:
  "retireCredits db projectId quantity buyer reason = (Some tid, db')
   \<Longrightarrow> carbonProject db' = carbonProject db"
proof -
  assume s: "retireCredits db projectId quantity buyer reason = (Some tid, db')"
  obtain db1 db2 where
    t: "transaction_create
          \<lparr>tx_id = 0, tx_type = retirement, tx_projectId = projectId, fromUserId = None,
           toUserId = buyer, tx_quantity = quantity, tx_pricePerCredit = None,
           totalValue = None, tx_status = confirmed\<rparr> db = Some db1"
    and d: "buyerHolding_decrement buyer projectId quantity db1 = Some db2"
    and a: "complianceAlert_create
              \<lparr>al_type = info, entity = buyer,
               message = String_int quantity @ '' credits retired from project ''
                           @ projectId @ ''. Reason: '' @ reason,
               al_projectId = Some projectId, resolved = True\<rparr> db2 = Some db'"
    by (rule retireCredits_Some[OF s]) (rule that)
  show ?thesis
    using buyerHolding_decrement_frame(1)[OF d] complianceAlert_create_frame(1)[OF a]
      transaction_create_frame(1)[OF t] by simp
qed

text \<open>The retirement of 2000 of the 5000 credits that B1 holds, in full.\<close>

lemma retire_2000:
  "retireCredits held_db ''prj001'' 2000 ''B1'' ''offset''
   = (Some 2,
      held_db
        \<lparr>transaction := transaction held_db
           @ [\<lparr>tx_id = 2, tx_type = retirement, tx_projectId = ''prj001'',
                fromUserId = None, toUserId = ''B1'', tx_quantity = 2000,
                tx_pricePerCredit = None, totalValue = None, tx_status = confirmed\<rparr>],
         buyerHolding := [\<lparr>buyerId = ''B1'', bh_projectId = ''prj001'', bh_quantity = 3000,
                           avgPrice = 100\<rparr>],
         complianceAlert :=
           [\<lparr>al_type = info, entity = ''B1'',
              message = ''2000 credits retired from project prj001. Reason: offset'',
              al_projectId = Some ''prj001'', resolved = True\<rparr>],
         nextId := 3\<rparr>)"
  by (simp add: retireCredits_def store_defs example_defs string_defs)

theorem retire_leaves_inventory_witness:
  "retireCredits held_db ''prj001'' 2000 ''B1'' ''offset''
   = (Some 2, snd (retireCredits held_db ''prj001'' 2000 ''B1'' ''offset''))
   \<and> carbonProject (snd (retireCredits held_db ''prj001'' 2000 ''B1'' ''offset''))
       = carbonProject held_db
   \<and> map_option availableCredits (carbonProject held_db ''prj001'') = Some 5000
   \<and> map_option availableCredits
        (carbonProject (snd (retireCredits held_db ''prj001'' 2000 ''B1'' ''offset'')) ''prj001'')
       = Some 5000"
proof -
  have s: "retireCredits held_db ''prj001'' 2000 ''B1'' ''offset''
           = (Some 2, snd (retireCredits held_db ''prj001'' 2000 ''B1'' ''offset''))"
    by (simp add: retire_2000)
  have v: "map_option availableCredits (carbonProject held_db ''prj001'') = Some 5000"
    by (simp add: example_defs)
  show ?thesis
    using s v retire_leaves_inventory[OF s] by simp
qed

section \<open>Serial numbers\<close>

text \<open>
  C8. The serial numbers of the batches in the database stay pairwise distinct under
  every call of \<^verbatim>\<open>issueCredits\<close>, whatever the clock shows: a batch whose serial is
  already present, from this call or from an earlier one, is rejected by the unique
  index before the transaction commits, and the whole call is rolled back.
\<close>

theorem serials_stay_distinct:
  "distinct (map serialNumber (carbonCredit db))
   \<Longrightarrow> issueCredits db now projectId quantity = (r, db')
   \<Longrightarrow> distinct (map serialNumber (carbonCredit db'))"
proof -
  assume dist: "distinct (map serialNumber (carbonCredit db))"
    and run: "issueCredits db now projectId quantity = (r, db')"
  show ?thesis
  proof (cases "db' = db")
    case True
    then show ?thesis using dist by simp
  next
    case False
    obtain pr serials db1 where
      "carbonProject db projectId = Some pr"
      and l: "issueLoop projectId pr quantity (min quantity 5) now
                [0 ..< nat (min quantity 5)] ([], db) = Some (serials, db1)"
      and t: "transaction_create
                \<lparr>tx_id = 0, tx_type = issuance, tx_projectId = projectId, fromUserId = None,
                 toUserId = developerId pr, tx_quantity = quantity, tx_pricePerCredit = None,
                 totalValue = None, tx_status = confirmed\<rparr> db1 = Some db'"
      and "r = IssueSuccess serials"
      by (rule issueCredits_changed[OF run False])
    show ?thesis
      using issueLoop_distinct[OF l dist] transaction_create_frame(3)[OF t] by simp
  qed
qed

text \<open>Seven credits issued for the project of the scenario, in full.\<close>

lemma issue_7:
  "issueCredits scenario_db (steady_clock 1730000000123) ''prj001'' 7
   = (IssueSuccess [''BCX-PRJ001-2024-0123'', ''BCX-PRJ001-2024-0124'', ''BCX-PRJ001-2024-0125'',
                    ''BCX-PRJ001-2024-0126'', ''BCX-PRJ001-2024-0127''],
      scenario_db
        \<lparr>carbonCredit :=
           map (\<lambda>s. \<lparr>cc_projectId = ''prj001'', serialNumber = s, cc_vintage = 2024,
                      cc_quantity = 1, cc_status = issued\<rparr>)
             [''BCX-PRJ001-2024-0123'', ''BCX-PRJ001-2024-0124'', ''BCX-PRJ001-2024-0125'',
              ''BCX-PRJ001-2024-0126'', ''BCX-PRJ001-2024-0127''],
         transaction :=
           [\<lparr>tx_id = 0, tx_type = issuance, tx_projectId = ''prj001'', fromUserId = None,
              toUserId = ''dev'', tx_quantity = 7, tx_pricePerCredit = None,
              totalValue = None, tx_status = confirmed\<rparr>],
         nextId := 1\<rparr>)"
  by (simp add: issueCredits_def store_defs example_defs string_defs upt_rec)

theorem serials_stay_distinct_witness:
  "distinct (map serialNumber (carbonCredit scenario_db))
   \<and> distinct (map serialNumber (carbonCredit
        (snd (issueCredits scenario_db (steady_clock 1730000000123) ''prj001'' 7))))
   \<and> length (carbonCredit
        (snd (issueCredits scenario_db (steady_clock 1730000000123) ''prj001'' 7))) = 5"
proof -
  have d: "distinct (map serialNumber (carbonCredit scenario_db))"
    by (simp add: example_defs)
  have e: "issueCredits scenario_db (steady_clock 1730000000123) ''prj001'' 7
           = (fst (issueCredits scenario_db (steady_clock 1730000000123) ''prj001'' 7),
              snd (issueCredits scenario_db (steady_clock 1730000000123) ''prj001'' 7))"
    by simp
  have n: "length (carbonCredit
             (snd (issueCredits scenario_db (steady_clock 1730000000123) ''prj001'' 7))) = 5"
    by (simp add: issue_7)
  show ?thesis
    using d n serials_stay_distinct[OF d e] by simp
qed

text \<open>
  A second call in the same millisecond builds the serials of the first: the unique
  index rejects the first batch, the call ends with an exception and writes nothing.
\<close>

lemma issue_again_same_millisecond:
  "issueCredits (snd (issueCredits scenario_db (steady_clock 1730000000123) ''prj001'' 7))
     (steady_clock 1730000000123) ''prj001'' 7
   = (IssueException, snd (issueCredits scenario_db (steady_clock 1730000000123) ''prj001'' 7))"
  unfolding issue_7 snd_conv
  by (simp add: issueCredits_def store_defs example_defs string_defs upt_rec)

section \<open>Where the code departs from the specification\<close>

lemmas purchase_defs = purchaseCredits_def purchaseRead_def purchaseWrite_def

text \<open>
  C2. Two purchases of ten credits each run against a project with ten credits left.
  Both calls read the project row before either has written: both checks pass, both
  transactions commit, both calls report success, and the project is left with minus
  ten available credits. Run one after the other, the second call is refused.
\<close>

theorem purchase_race:
  "purchaseRead last_ten_db ''prj001'' 10 = Inr last_ten_project
   \<and> fst (purchaseWrite last_ten_db last_ten_project ''prj001'' 10 ''B1'') = Inr 0
   \<and> fst (purchaseWrite (snd (purchaseWrite last_ten_db last_ten_project ''prj001'' 10 ''B1''))
            last_ten_project ''prj001'' 10 ''B2'') = Inr 1
   \<and> map_option availableCredits
        (carbonProject
           (snd (purchaseWrite (snd (purchaseWrite last_ten_db last_ten_project ''prj001'' 10 ''B1''))
                   last_ten_project ''prj001'' 10 ''B2'')) ''prj001'')
       = Some (- 10)
   \<and> fst (purchaseCredits (snd (purchaseCredits last_ten_db ''prj001'' 10 ''B1''))
            ''prj001'' 10 ''B2'') = Inl NotEnoughCredits"
  by (simp add: purchase_defs store_defs example_defs)

text \<open>
  C7. The supply is not checked when the purchase commits. B2 asks for ten credits and
  reads the project row while ten are available, so the check passes. B1's purchase of
  the ten credits commits first: the stored row now has no credit available, fewer than
  B2 asks for. B2's transaction still commits: the call reports success, a second
  ledger row and a holding for B2 are written, and the available credits go to minus
  ten, where the call should fail and leave inventory, ledger and holdings as they were.
\<close>

theorem purchase_commits_without_supply:
  "purchaseRead last_ten_db ''prj001'' 10 = Inr last_ten_project
   \<and> purchaseWrite last_ten_db last_ten_project ''prj001'' 10 ''B1'' = (Inr 0, sold_out_db)
   \<and> map_option availableCredits (carbonProject sold_out_db ''prj001'') = Some 0
   \<and> fst (purchaseWrite sold_out_db last_ten_project ''prj001'' 10 ''B2'') = Inr 1
   \<and> map_option availableCredits
        (carbonProject (snd (purchaseWrite sold_out_db last_ten_project ''prj001'' 10 ''B2''))
           ''prj001'')
       = Some (- 10)
   \<and> map toUserId
        (transaction (snd (purchaseWrite sold_out_db last_ten_project ''prj001'' 10 ''B2'')))
       = [''B1'', ''B2'']
   \<and> map tx_quantity
        (transaction (snd (purchaseWrite sold_out_db last_ten_project ''prj001'' 10 ''B2'')))
       = [10, 10]
   \<and> buyerHolding (snd (purchaseWrite sold_out_db last_ten_project ''prj001'' 10 ''B2''))
       = [\<lparr>buyerId = ''B1'', bh_projectId = ''prj001'', bh_quantity = 10, avgPrice = 100\<rparr>,
          \<lparr>buyerId = ''B2'', bh_projectId = ''prj001'', bh_quantity = 10, avgPrice = 100\<rparr>]"
  by (simp add: purchase_defs store_defs example_defs)

text \<open>
  C3. Seven credits are issued: the call makes five batches of one credit each, five
  credits in all, and writes a ledger row of seven.
\<close>

theorem issue_loses_remainder:
  "fst (issueCredits scenario_db (steady_clock 1730000000123) ''prj001'' 7)
     = IssueSuccess [''BCX-PRJ001-2024-0123'', ''BCX-PRJ001-2024-0124'', ''BCX-PRJ001-2024-0125'',
                     ''BCX-PRJ001-2024-0126'', ''BCX-PRJ001-2024-0127'']
   \<and> issuedBy scenario_db (snd (issueCredits scenario_db (steady_clock 1730000000123) ''prj001'' 7))
       = [1, 1, 1, 1, 1]
   \<and> sum_list (issuedBy scenario_db
         (snd (issueCredits scenario_db (steady_clock 1730000000123) ''prj001'' 7))) = 5
   \<and> map tx_quantity
         (transaction (snd (issueCredits scenario_db (steady_clock 1730000000123) ''prj001'' 7)))
       = [7]"
  unfolding issue_7 by (simp add: issuedBy_def scenario_db_def)

text \<open>
  In general, a successful call for \<open>q\<close> credits makes \<open>min q 5\<close> batches of
  \<open>q div min q 5\<close> credits each: the remainder of the division is in no batch.
\<close>

lemma issueCredits_Success:
  assumes "issueCredits db now pid q = (IssueSuccess serials, db')"
  obtains pr db1 where "carbonProject db pid = Some pr"
    and "issueLoop pid pr q (min q 5) now [0 ..< nat (min q 5)] ([], db) = Some (serials, db1)"
    and "transaction_create
           \<lparr>tx_id = 0, tx_type = issuance, tx_projectId = pid, fromUserId = None,
            toUserId = developerId pr, tx_quantity = q, tx_pricePerCredit = None,
            totalValue = None, tx_status = confirmed\<rparr> db1 = Some db'"
  using assms
  by (auto simp: issueCredits_def Let_def split: option.splits Option.bind_splits)

lemma issued_quantities:
  assumes run: "issueCredits db now pid q = (IssueSuccess serials, db')"
  shows "issuedBy db db' = replicate (nat (min q 5)) (q div min q 5)"
    and "length serials = nat (min q 5)"
proof -
  obtain pr db1 where
    "carbonProject db pid = Some pr"
    and l: "issueLoop pid pr q (min q 5) now [0 ..< nat (min q 5)] ([], db) = Some (serials, db1)"
    and t: "transaction_create
              \<lparr>tx_id = 0, tx_type = issuance, tx_projectId = pid, fromUserId = None,
               toUserId = developerId pr, tx_quantity = q, tx_pricePerCredit = None,
               totalValue = None, tx_status = confirmed\<rparr> db1 = Some db'"
    by (rule issueCredits_Success[OF run])
  have m: "map cc_quantity (carbonCredit db')
             = map cc_quantity (carbonCredit db) @ replicate (nat (min q 5)) (q div min q 5)"
    and n: "length serials = nat (min q 5)"
    using issueLoop_quantities[OF l] transaction_create_frame(3)[OF t] by simp_all
  have "issuedBy db db'
          = drop (length (map cc_quantity (carbonCredit db))) (map cc_quantity (carbonCredit db'))"
    by (simp add: issuedBy_def drop_map)
  also have "\<dots> = replicate (nat (min q 5)) (q div min q 5)"
    unfolding m by simp
  finally show "issuedBy db db' = replicate (nat (min q 5)) (q div min q 5)" .
  show "length serials = nat (min q 5)" by (rule n)
qed

lemma issued_total:
  assumes "0 < q" and "issueCredits db now pid q = (IssueSuccess serials, db')"
  shows "sum_list (issuedBy db db') = min q 5 * (q div min q 5)"
  using assms(1) by (simp add: issued_quantities(1)[OF assms(2)] sum_list_replicate)

text \<open>
  C4. B1 holds 4000 credits at an average price of 100 and buys 1000 more at the posted
  price of 200: the holding grows to 5000 and its average price is still 100, where the
  weighted average is 120.
\<close>

theorem purchase_keeps_avgPrice:
  "fst (purchaseCredits bought_db ''prj001'' 1000 ''B1'') = Inr 1
   \<and> buyerHolding (snd (purchaseCredits bought_db ''prj001'' 1000 ''B1''))
       = [\<lparr>buyerId = ''B1'', bh_projectId = ''prj001'', bh_quantity = 5000, avgPrice = 100\<rparr>]
   \<and> map tx_pricePerCredit (transaction (snd (purchaseCredits bought_db ''prj001'' 1000 ''B1'')))
       = [Some 100, Some 200]
   \<and> (4000 * 100 + 1000 * 200) / (4000 + 1000) = (120 :: rat)"
  by (simp add: purchase_defs store_defs example_defs)

text \<open>
  C5. B1 holds 4000 credits and retires 5000: the call succeeds, writes its ledger row
  and leaves a holding of minus 1000.
\<close>

theorem retire_more_than_held:
  "fst (retireCredits bought_db ''prj001'' 5000 ''B1'' ''offset'') = Some 1
   \<and> buyerHolding (snd (retireCredits bought_db ''prj001'' 5000 ''B1'' ''offset''))
       = [\<lparr>buyerId = ''B1'', bh_projectId = ''prj001'', bh_quantity = - 1000, avgPrice = 100\<rparr>]
   \<and> map tx_quantity (transaction (snd (retireCredits bought_db ''prj001'' 5000 ''B1'' ''offset'')))
       = [4000, 5000]"
  by (simp add: retireCredits_def store_defs example_defs)

text \<open>
  A retirement by a buyer without a holding in the project fails and writes nothing:
  the update of the missing row raises, and the transaction is rolled back.
\<close>

lemma retire_without_holding:
  assumes "holding_find buyer projectId (buyerHolding db) = None"
  shows "retireCredits db projectId quantity buyer reason = (None, db)"
proof (cases "transaction_create
                \<lparr>tx_id = 0, tx_type = retirement, tx_projectId = projectId, fromUserId = None,
                 toUserId = buyer, tx_quantity = quantity, tx_pricePerCredit = None,
                 totalValue = None, tx_status = confirmed\<rparr> db")
  case None
  then show ?thesis by (simp add: retireCredits_def)
next
  case (Some db1)
  have "buyerHolding_decrement buyer projectId quantity db1 = None"
    using assms transaction_create_frame(2)[OF Some]
    by (simp add: buyerHolding_decrement_def)
  then show ?thesis using Some by (simp add: retireCredits_def)
qed

text \<open>
  C6, as stated, fails: minus three credits are issued for the project of the scenario,
  the call reports success and writes a ledger row with the quantity minus three.
\<close>

theorem issue_negative_succeeds:
  "issueCredits scenario_db (steady_clock 1730000000123) ''prj001'' (- 3)
   = (IssueSuccess [],
      scenario_db
        \<lparr>transaction :=
           [\<lparr>tx_id = 0, tx_type = issuance, tx_projectId = ''prj001'', fromUserId = None,
              toUserId = ''dev'', tx_quantity = - 3, tx_pricePerCredit = None,
              totalValue = None, tx_status = confirmed\<rparr>],
         nextId := 1\<rparr>)"
  by (simp add: issueCredits_def store_defs example_defs)

text \<open>
  C6, amended. A quantity that is zero or negative is not refused. For an existing
  project whose developer is a registered user, and a quantity in the range of the
  column, the call creates no batch, reports success with an empty list of serials and
  appends one issuance row with that quantity to the ledger.
\<close>

theorem issue_nonpositive:
  "quantity \<le> 0 \<Longrightarrow> carbonProject db projectId = Some project
   \<Longrightarrow> fk_user db (developerId project) \<Longrightarrow> int4 quantity
   \<Longrightarrow> issueCredits db now projectId quantity
       = (IssueSuccess [],
          db\<lparr>transaction := transaction db
                @ [\<lparr>tx_id = nextId db, tx_type = issuance, tx_projectId = projectId,
                     fromUserId = None, toUserId = developerId project,
                     tx_quantity = quantity, tx_pricePerCredit = None, totalValue = None,
                     tx_status = confirmed\<rparr>],
              nextId := Suc (nextId db)\<rparr>)
     \<and> carbonCredit (snd (issueCredits db now projectId quantity)) = carbonCredit db"
  by (simp add: issueCredits_def transaction_create_def fk_project_def fk_user_opt_def
        min_def)

theorem issue_nonpositive_witness:
  "(0::int) \<le> 0 \<and> carbonProject scenario_db ''prj001'' = Some scenario_project
   \<and> fk_user scenario_db (developerId scenario_project) \<and> int4 0
   \<and> fst (issueCredits scenario_db (steady_clock 1730000000123) ''prj001'' 0) = IssueSuccess []
   \<and> map tx_quantity
        (transaction (snd (issueCredits scenario_db (steady_clock 1730000000123) ''prj001'' 0)))
       = [0]
   \<and> carbonCredit (snd (issueCredits scenario_db (steady_clock 1730000000123) ''prj001'' 0)) = []"
proof -
  have p: "carbonProject scenario_db ''prj001'' = Some scenario_project"
    by (simp add: scenario_db_def)
  have u: "fk_user scenario_db (developerId scenario_project)"
    by (simp add: fk_user_def example_defs)
  have i: "int4 0"
    by (simp add: int4_def)
  have z: "(0::int) \<le> 0"
    by simp
  have e: "transaction scenario_db = []" "carbonCredit scenario_db = []"
    by (simp_all add: scenario_db_def)
  show ?thesis
    using p u i e issue_nonpositive[OF z p u i, of "steady_clock 1730000000123"]
    by simp
qed

section \<open>The range of the integrity score\<close>

text \<open>
  Clamping is exact on doubles, and a double between 30 and 95 rounds to an integer
  between 30 and 95: the bounds below hold for every real argument, so they do not depend
  on how the arithmetic before the clamp is rounded.
\<close>

lemma Math_round_clamped:
  "30 \<le> Math_round (min MAX_SCORE (max MIN_SCORE v))
   \<and> Math_round (min MAX_SCORE (max MIN_SCORE v)) \<le> 95"
proof -
  define c where "c = min MAX_SCORE (max MIN_SCORE v)"
  have lo: "30 \<le> c" and hi: "c \<le> 95"
    by (simp_all add: c_def MIN_SCORE_def MAX_SCORE_def)
  have "(30::int) \<le> \<lfloor>c + 1 / 2\<rfloor>"
    using lo by (simp add: le_floor_iff)
  moreover have "\<lfloor>c + 1 / 2\<rfloor> \<le> (95::int)"
    using hi by (simp add: floor_le_iff)
  ultimately show ?thesis by (simp add: Math_round_def c_def)
qed

lemma clampAndRound_range:
  "30 \<le> clampAndRound v MIN_SCORE MAX_SCORE \<and> clampAndRound v MIN_SCORE MAX_SCORE \<le> 95"
  unfolding clampAndRound_def by (rule Math_round_clamped)

text \<open>
  C10. For every description, every outcome of the pattern tests and every sequence of
  random numbers, the overall score and each of the six parameters returned by
  \<^verbatim>\<open>calculateIntegrityScoreFromDescription\<close> is an integer between 30 and 95.
\<close>

theorem integrity_score_range:
  "(let r = calculateIntegrityScoreFromDescription test random description;
        ps = parameters r
    in 30 \<le> score r \<and> score r \<le> 95
     \<and> 30 \<le> additionality ps \<and> additionality ps \<le> 95
     \<and> 30 \<le> permanence ps \<and> permanence ps \<le> 95
     \<and> 30 \<le> mrv ps \<and> mrv ps \<le> 95
     \<and> 30 \<le> leakage ps \<and> leakage ps \<le> 95
     \<and> 30 \<le> registryQuality ps \<and> registryQuality ps \<le> 95
     \<and> 30 \<le> correspondingAdjustment ps \<and> correspondingAdjustment ps \<le> 95)"
  unfolding calculateIntegrityScoreFromDescription_def Let_def
  by (simp add: clampAndRound_range Math_round_clamped)

end
